theory Spec2Isabelle
  imports Complex_Main "HOL-Library.Word"
begin

section \<open>The generative pipeline of app.py\<close>

text \<open>
  A shallow embedding of \<^verbatim>\<open>src/app.py\<close>: the module-level set-up of the client, the three
  stage functions \<^verbatim>\<open>step1_enhance_prompt\<close>, \<^verbatim>\<open>step2_generate_sketch\<close>,
  \<^verbatim>\<open>step3_generate_render\<close>, and the workflow block that runs under
  \<^verbatim>\<open>if generate_btn:\<close>.

  Python's \<^verbatim>\<open>None\<close> is \<open>None\<close> of an option type, a \<^verbatim>\<open>str\<close> is a \<open>string\<close>
  (characters are the code points below 256), \<^verbatim>\<open>bytes\<close> is a list of 8-bit words.
  An exception is a value: \<open>Inl msg\<close> where \<open>msg\<close> is what \<^verbatim>\<open>str(e)\<close> gives.
  Everything a function does besides returning (a call to the backend, a message shown with
  \<^verbatim>\<open>st.error\<close>, a status label, a write to \<^verbatim>\<open>st.session_state\<close>) is recorded in an
  explicit \<open>world\<close> that is passed in and returned. What \<^verbatim>\<open>print\<close> and
  \<^verbatim>\<open>traceback.print_exc\<close> write to the console and what \<^verbatim>\<open>st.write\<close> and
  \<^verbatim>\<open>st.image\<close> draw are not recorded.
\<close>

subsection \<open>Python values\<close>

type_synonym bytes = "8 word list"

text \<open>Truthiness of an optional string or byte string: \<^verbatim>\<open>None\<close>, \<^verbatim>\<open>""\<close> and \<^verbatim>\<open>b""\<close> are false.\<close>

fun truthy :: "'a list option \<Rightarrow> bool" where
  "truthy None = False"
| "truthy (Some xs) = (xs \<noteq> [])"

text \<open>\<^verbatim>\<open>str(x)\<close> as an f-string applies it to a value that is a string or \<^verbatim>\<open>None\<close>.\<close>

fun py_str :: "string option \<Rightarrow> string" where
  "py_str None = ''None''"
| "py_str (Some s) = s"

text \<open>\<^verbatim>\<open>str.isspace\<close> on the code points below 256, and \<^verbatim>\<open>str.strip()\<close>.\<close>

definition isspace :: "char \<Rightarrow> bool" where
  "isspace c = ((of_char c :: nat) \<in> {9, 10, 11, 12, 13, 28, 29, 30, 31, 32, 133, 160})"

definition strip :: "string \<Rightarrow> string" where
  "strip s = rev (dropWhile isspace (rev (dropWhile isspace s)))"

text \<open>The message of the \<^verbatim>\<open>AttributeError\<close> raised by \<^verbatim>\<open>None.attr\<close>.\<close>

definition attribute_error :: "string \<Rightarrow> string" where
  "attribute_error attr =
     [CHR 0x27] @ ''NoneType'' @ [CHR 0x27] @ '' object has no attribute ''
     @ [CHR 0x27] @ attr @ [CHR 0x27]"

subsection \<open>The client library's types\<close>

text \<open>
  The request and response types belong to the client library (\<^verbatim>\<open>google.genai.types\<close>),
  which is not part of the repository. They are modelled by the attributes the code reads and
  writes. An attribute the library declares optional is an option here: a response may have
  no candidates, a candidate no content, a content no parts, a part no inline data, a blob no
  data, and the \<^verbatim>\<open>text\<close> property of a response may be \<^verbatim>\<open>None\<close>.
\<close>

record blob =
  data :: "bytes option"
  mime_type :: "string option"

record part =
  part_text :: "string option"
  inline_data :: "blob option"

record content =
  parts :: "part list option"

record candidate =
  content :: "content option"

record response =
  response_text :: "string option"
  candidates :: "candidate list option"

record generate_content_config =
  max_output_tokens :: "nat option"
  temperature :: "rat option"
  top_p :: "rat option"
  top_k :: "nat option"

datatype contents = Str string | Items string blob

record request =
  model :: string
  contents :: contents
  config :: "generate_content_config option"

text \<open>
  \<^verbatim>\<open>client.models.generate_content\<close>: given the requests made so far and the request, it
  raises (\<open>Inl\<close>) or returns a response (\<open>Inr\<close>). Nothing is assumed about it.
\<close>

type_synonym backend = "request list \<Rightarrow> request \<Rightarrow> string + response"

subsection \<open>Module-level state\<close>

record globals =
  MODEL_TEXT :: string
  MODEL_IMAGE :: string
  client :: "backend option"

definition environ_get :: "(string \<rightharpoonup> string) \<Rightarrow> string \<Rightarrow> string \<Rightarrow> string" where
  "environ_get environ k d = (case environ k of None \<Rightarrow> d | Some v \<Rightarrow> v)"

text \<open>
  Lines 13 to 27. \<open>genai_Client project location\<close> is the constructor
  \<^verbatim>\<open>genai.Client(vertexai=True, project=..., location=...)\<close>, which raises or returns a client.
\<close>

definition module_setup ::
  "(string \<rightharpoonup> string) \<Rightarrow> (string option \<Rightarrow> string \<Rightarrow> string + backend) \<Rightarrow> globals" where
  "module_setup environ genai_Client =
     (let project_id = environ ''GOOGLE_CLOUD_PROJECT'';
          location = environ_get environ ''GOOGLE_CLOUD_REGION'' ''us-central1''
      in \<lparr>MODEL_TEXT = environ_get environ ''MODEL_TEXT'' ''gemini-2.0-flash-lite'',
          MODEL_IMAGE = environ_get environ ''MODEL_IMAGE'' ''gemini-2.5-flash-image'',
          client = (case genai_Client project_id location of
                      Inl e \<Rightarrow> None
                    | Inr c \<Rightarrow> Some c)\<rparr>)"

subsection \<open>Session state and the world\<close>

text \<open>
  A key of \<^verbatim>\<open>st.session_state\<close> is absent, or holds \<^verbatim>\<open>None\<close> or a value.
\<close>

datatype 'a slot = Absent | Stored "'a option"

record session_state =
  step1_text :: "string slot"
  step2_image :: "bytes slot"
  step3_image :: "bytes slot"

record world =
  session :: session_state
  calls :: "request list"
  errors :: "string list"
  labels :: "string list"

definition st_error :: "string \<Rightarrow> world \<Rightarrow> world" where
  "st_error msg w = w\<lparr>errors := errors w @ [msg]\<rparr>"

definition status_update :: "string \<Rightarrow> world \<Rightarrow> world" where
  "status_update label w = w\<lparr>labels := labels w @ [label]\<rparr>"

text \<open>One call of \<^verbatim>\<open>client.models.generate_content\<close>: the request is logged, then answered.\<close>

definition generate_content :: "backend \<Rightarrow> request \<Rightarrow> world \<Rightarrow> (string + response) \<times> world" where
  "generate_content c req w = (c (calls w) req, w\<lparr>calls := calls w @ [req]\<rparr>)"

subsection \<open>Stage 1\<close>

definition step1_prompt :: "string \<Rightarrow> string" where
  "step1_prompt base_prompt =
     ''Expand this room description into 1-2 short sentences with key details. Be very brief (under 20 words).''
     @ [CHR 0x0A, CHR 0x0A] @ ''Room: '' @ take 200 base_prompt"

definition step1_request :: "globals \<Rightarrow> string \<Rightarrow> request" where
  "step1_request g base_prompt =
     \<lparr>model = MODEL_TEXT g,
      contents = Str (step1_prompt base_prompt),
      config = Some \<lparr>max_output_tokens = Some 50, temperature = Some (7 / 10),
                     top_p = None, top_k = None\<rparr>\<rparr>"

definition step1_enhance_prompt :: "globals \<Rightarrow> string \<Rightarrow> world \<Rightarrow> string option \<times> world" where
  "step1_enhance_prompt g base_prompt w =
     (case client g of
        None \<Rightarrow> (None, w)
      | Some c \<Rightarrow>
          (case generate_content c (step1_request g base_prompt) w of
             (Inl e, w1) \<Rightarrow> (None, st_error (''Step 1 Error: '' @ e) w1)
           | (Inr response, w1) \<Rightarrow>
               (case response_text response of
                  None \<Rightarrow> (None, st_error (''Step 1 Error: '' @ attribute_error ''strip'') w1)
                | Some t \<Rightarrow> (Some (strip t), w1))))"

subsection \<open>Stages 2 and 3\<close>

text \<open>
  The loop \<^verbatim>\<open>for part in ...parts: if part.inline_data: return part.inline_data.data\<close>:
  \<open>Some v\<close> when the loop returns \<open>v\<close>, \<open>None\<close> when it runs to its end.
\<close>

fun first_inline_data :: "part list \<Rightarrow> bytes option option" where
  "first_inline_data [] = None"
| "first_inline_data (p # ps) =
     (case inline_data p of
        Some b \<Rightarrow> Some (data b)
      | None \<Rightarrow> first_inline_data ps)"

text \<open>
  Lines 68 to 73, and the same statements at lines 110 to 114. The result is what the
  function returns, or the exception of \<^verbatim>\<open>candidates[0].content.parts\<close> when the first
  candidate has no content.
\<close>

definition find_image :: "response \<Rightarrow> string + bytes option" where
  "find_image response =
     (case candidates response of
        None \<Rightarrow> Inr None
      | Some [] \<Rightarrow> Inr None
      | Some (c # _) \<Rightarrow>
          (case content c of
             None \<Rightarrow> Inl (attribute_error ''parts'')
           | Some ct \<Rightarrow>
               (case parts ct of
                  None \<Rightarrow> Inr None
                | Some ps \<Rightarrow>
                    (case first_inline_data ps of
                       Some v \<Rightarrow> Inr v
                     | None \<Rightarrow> Inr None))))"

definition step2_prompt :: "string option \<Rightarrow> string" where
  "step2_prompt enhanced_prompt =
     ''Create a clean black-and-white architectural line drawing sketch. ''
     @ ''Pure black lines on white background. No shading, no color, no grayscale. ''
     @ ''Show perspective, layout, and all furniture/objects clearly.''
     @ [CHR 0x0A, CHR 0x0A] @ ''Room: '' @ py_str enhanced_prompt"

definition step2_request :: "globals \<Rightarrow> string option \<Rightarrow> request" where
  "step2_request g enhanced_prompt =
     \<lparr>model = MODEL_IMAGE g, contents = Str (step2_prompt enhanced_prompt), config = None\<rparr>"

definition step2_generate_sketch ::
  "globals \<Rightarrow> string option \<Rightarrow> world \<Rightarrow> bytes option \<times> world" where
  "step2_generate_sketch g enhanced_prompt w =
     (case client g of
        None \<Rightarrow> (None, w)
      | Some c \<Rightarrow>
          (case generate_content c (step2_request g enhanced_prompt) w of
             (Inl e, w1) \<Rightarrow> (None, st_error (''Step 2 Error: '' @ e) w1)
           | (Inr response, w1) \<Rightarrow>
               (case find_image response of
                  Inl e \<Rightarrow> (None, st_error (''Step 2 Error: '' @ e) w1)
                | Inr v \<Rightarrow> (v, w1))))"

definition render_prompt :: string where
  "render_prompt =
     ''Transform this into a high-end 3D render. ''
     @ ''Style: photorealistic architectural visualization (archviz). ''
     @ ''Ultra-high resolution textures, ray-traced lighting, soft shadows, volumetric light, ''
     @ ''realistic reflections, micro-surface details, natural color grading, and lens effects.''"

definition step3_request :: "globals \<Rightarrow> bytes option \<Rightarrow> request" where
  "step3_request g sketch_bytes =
     \<lparr>model = MODEL_IMAGE g,
      contents = Items render_prompt \<lparr>data = sketch_bytes, mime_type = Some ''image/png''\<rparr>,
      config = Some \<lparr>max_output_tokens = None, temperature = Some 0,
                     top_p = Some 1, top_k = Some 40\<rparr>\<rparr>"

definition step3_generate_render ::
  "globals \<Rightarrow> bytes option \<Rightarrow> world \<Rightarrow> bytes option \<times> world" where
  "step3_generate_render g sketch_bytes w =
     (case client g of
        None \<Rightarrow> (None, w)
      | Some c \<Rightarrow>
          (case generate_content c (step3_request g sketch_bytes) w of
             (Inl e, w1) \<Rightarrow> (None, st_error (''Step 3 Error: '' @ e) w1)
           | (Inr response, w1) \<Rightarrow>
               (case find_image response of
                  Inl e \<Rightarrow> (None, st_error (''Step 3 Error: '' @ e) w1)
                | Inr v \<Rightarrow> (v, w1))))"

subsection \<open>The form and the workflow\<close>

record design_brief =
  room_type :: string
  design_style :: string
  material_focus :: string
  color_palette :: string
  additional_details :: string

text \<open>Line 207.\<close>

definition base_prompt :: "design_brief \<Rightarrow> string" where
  "base_prompt b =
     design_style b @ '' '' @ room_type b @ '' with focus on '' @ material_focus b
     @ '' and '' @ color_palette b @ '' tones. '' @ additional_details b"

text \<open>Lines 222 to 224: a key is set only when it is not in the session state.\<close>

definition init_session :: "session_state \<Rightarrow> session_state" where
  "init_session s =
     (let s1 = (if step1_text s = Absent then s\<lparr>step1_text := Stored (Some '''')\<rparr> else s);
          s2 = (if step2_image s1 = Absent then s1\<lparr>step2_image := Stored None\<rparr> else s1);
          s3 = (if step3_image s2 = Absent then s2\<lparr>step3_image := Stored None\<rparr> else s2)
      in s3)"

text \<open>
  The workflow block as a machine over its control points: before the initialisation of the
  session state, before each of the three \<^verbatim>\<open>with st.status\<close> blocks, and halted. It halts
  by reaching the end of the block, by \<^verbatim>\<open>st.stop()\<close>, or by an exception nothing catches.
  \<open>image_open\<close> stands for \<^verbatim>\<open>Image.open\<close> followed by \<^verbatim>\<open>st.image\<close>: \<open>Some e\<close> when
  they raise on the bytes, \<open>None\<close> when the image is shown.
\<close>

datatype halt = Finished | Stopped | Raised string

datatype pc = AtInit | AtStep1 | AtStep2 | AtStep3 | Halted halt

fun workflow_step ::
  "globals \<Rightarrow> (bytes \<Rightarrow> string option) \<Rightarrow> string \<Rightarrow> pc \<times> world \<Rightarrow> pc \<times> world" where
  "workflow_step g image_open bp (AtInit, w) =
     (AtStep1, w\<lparr>session := init_session (session w)\<rparr>)"
| "workflow_step g image_open bp (AtStep1, w) =
     (case step1_enhance_prompt g bp w of
        (r, w1) \<Rightarrow>
          let w2 = w1\<lparr>session := (session w1)\<lparr>step1_text := Stored r\<rparr>\<rparr>
          in if truthy r then (AtStep2, status_update ''Brief Enhanced!'' w2)
             else (Halted Stopped, status_update ''Step 1 Failed'' w2))"
| "workflow_step g image_open bp (AtStep2, w) =
     (case step1_text (session w) of
        Absent \<Rightarrow> (Halted (Raised ''AttributeError: step1_text''), w)
      | Stored t \<Rightarrow>
          (case step2_generate_sketch g t w of
             (r, w1) \<Rightarrow>
               let w2 = w1\<lparr>session := (session w1)\<lparr>step2_image := Stored r\<rparr>\<rparr>
               in if truthy r then
                    (case image_open (the r) of
                       Some e \<Rightarrow> (Halted (Raised e), w2)
                     | None \<Rightarrow> (AtStep3, status_update ''Sketch Generated!'' w2))
                  else (Halted Stopped, status_update ''Step 2 Failed'' w2)))"
| "workflow_step g image_open bp (AtStep3, w) =
     (case step2_image (session w) of
        Absent \<Rightarrow> (Halted (Raised ''AttributeError: step2_image''), w)
      | Stored sk \<Rightarrow>
          (case step3_generate_render g sk w of
             (r, w1) \<Rightarrow>
               let w2 = w1\<lparr>session := (session w1)\<lparr>step3_image := Stored r\<rparr>\<rparr>
               in if truthy r then
                    (case image_open (the r) of
                       Some e \<Rightarrow> (Halted (Raised e), w2)
                     | None \<Rightarrow> (Halted Finished, status_update ''Render Complete!'' w2))
                  else (Halted Finished, status_update ''Step 3 Failed'' w2)))"
| "workflow_step g image_open bp (Halted h, w) = (Halted h, w)"

text \<open>The state of the block after \<open>n\<close> steps, and the whole block (four steps reach a halt).\<close>

fun workflow_upto ::
  "nat \<Rightarrow> globals \<Rightarrow> (bytes \<Rightarrow> string option) \<Rightarrow> string \<Rightarrow> world \<Rightarrow> pc \<times> world" where
  "workflow_upto 0 g image_open bp w = (AtInit, w)"
| "workflow_upto (Suc n) g image_open bp w =
     workflow_step g image_open bp (workflow_upto n g image_open bp w)"

definition workflow ::
  "globals \<Rightarrow> (bytes \<Rightarrow> string option) \<Rightarrow> string \<Rightarrow> world \<Rightarrow> pc \<times> world" where
  "workflow g image_open bp w = workflow_upto 4 g image_open bp w"

subsection \<open>The vocabulary of the specification\<close>

text \<open>
  The specification speaks of the slots of a run, which are the three keys of the session
  state. A slot is non-empty when the workflow's own test \<^verbatim>\<open>if st.session_state.x:\<close>
  succeeds on it: it holds a string or a byte string that is not empty. A stage that fails
  leaves \<^verbatim>\<open>None\<close> (or the empty string) in its slot, which is what the initialisation puts
  there too, so a non-empty slot is a slot that holds the artifact of a successful stage.
\<close>

fun nonempty :: "'a list slot \<Rightarrow> bool" where
  "nonempty Absent = False"
| "nonempty (Stored v) = truthy v"

definition all_empty :: "session_state \<Rightarrow> bool" where
  "all_empty s =
     (\<not> nonempty (step1_text s) \<and> \<not> nonempty (step2_image s) \<and> \<not> nonempty (step3_image s))"

text \<open>The fill order the specification asks for: a later slot is non-empty only if every
  earlier one is.\<close>

definition monotonic_fill :: "session_state \<Rightarrow> bool" where
  "monotonic_fill s =
     ((nonempty (step2_image s) \<longrightarrow> nonempty (step1_text s))
      \<and> (nonempty (step3_image s) \<longrightarrow> nonempty (step1_text s) \<and> nonempty (step2_image s)))"


text \<open>What holds of the slots at each control point of a run that began with all of them
  empty.\<close>

fun run_inv :: "pc \<times> world \<Rightarrow> bool" where
  "run_inv (AtInit, w) = all_empty (session w)"
| "run_inv (AtStep1, w) = all_empty (session w)"
| "run_inv (AtStep2, w) =
     (nonempty (step1_text (session w)) \<and> \<not> nonempty (step2_image (session w))
      \<and> \<not> nonempty (step3_image (session w)))"
| "run_inv (AtStep3, w) =
     (nonempty (step1_text (session w)) \<and> nonempty (step2_image (session w))
      \<and> \<not> nonempty (step3_image (session w)))"
| "run_inv (Halted h, w) = monotonic_fill (session w)"

text \<open>
  The parts of a response: those of one candidate, those of the first candidate (the list
  the stage functions scan), and those of all candidates in order.
\<close>

definition candidate_parts :: "candidate \<Rightarrow> part list" where
  "candidate_parts c =
     (case content c of
        None \<Rightarrow> []
      | Some ct \<Rightarrow> (case parts ct of None \<Rightarrow> [] | Some ps \<Rightarrow> ps))"

definition first_candidate_parts :: "response \<Rightarrow> part list" where
  "first_candidate_parts r =
     (case candidates r of
        None \<Rightarrow> []
      | Some [] \<Rightarrow> []
      | Some (c # _) \<Rightarrow> candidate_parts c)"

definition returned_parts :: "response \<Rightarrow> part list" where
  "returned_parts r =
     (case candidates r of
        None \<Rightarrow> []
      | Some cs \<Rightarrow> concat (map candidate_parts cs))"

definition first_candidate_lacks_content :: "response \<Rightarrow> bool" where
  "first_candidate_lacks_content r =
     (case candidates r of
        None \<Rightarrow> False
      | Some [] \<Rightarrow> False
      | Some (c # _) \<Rightarrow> content c = None)"

text \<open>
  A part carries inline data when \<^verbatim>\<open>part.inline_data\<close> is set, which is the test of the
  code; it carries an inline image when, besides, the MIME type the blob declares is an image
  type. \<open>payload\<close> is \<^verbatim>\<open>part.inline_data.data\<close>.
\<close>

definition carries_inline_data :: "part \<Rightarrow> bool" where
  "carries_inline_data p = (inline_data p \<noteq> None)"

definition carries_inline_image :: "part \<Rightarrow> bool" where
  "carries_inline_image p =
     (case inline_data p of
        None \<Rightarrow> False
      | Some b \<Rightarrow> (case mime_type b of None \<Rightarrow> False | Some m \<Rightarrow> take 6 m = ''image/''))"

definition payload :: "part \<Rightarrow> bytes option" where
  "payload p = (case inline_data p of None \<Rightarrow> None | Some b \<Rightarrow> data b)"

subsection \<open>Concrete inputs\<close>

text \<open>
  A client constructor that raises when no project is configured; a backend that answers
  the \<open>n\<close>-th call with the \<open>n\<close>-th entry of a script and raises once the script is used
  up; responses with and without inline data; an image viewer that accepts everything and
  one that rejects everything.
\<close>

definition offline_Client :: "string option \<Rightarrow> string \<Rightarrow> string + backend" where
  "offline_Client project location =
     (case project of
        None \<Rightarrow> Inl ''Project must be set''
      | Some p \<Rightarrow> Inr (\<lambda>h req. Inl ''unreachable''))"

definition empty_session :: session_state where
  "empty_session = \<lparr>step1_text = Absent, step2_image = Absent, step3_image = Absent\<rparr>"

definition empty_world :: world where
  "empty_world = \<lparr>session = empty_session, calls = [], errors = [], labels = []\<rparr>"

definition png_bytes :: bytes where
  "png_bytes = [137, 80, 78, 71]"

definition wav_bytes :: bytes where
  "wav_bytes = [82, 73, 70, 70]"

definition image_part :: part where
  "image_part = \<lparr>part_text = None,
                  inline_data = Some \<lparr>data = Some png_bytes, mime_type = Some ''image/png''\<rparr>\<rparr>"

definition audio_part :: part where
  "audio_part = \<lparr>part_text = None,
                  inline_data = Some \<lparr>data = Some wav_bytes, mime_type = Some ''audio/wav''\<rparr>\<rparr>"

definition text_part :: part where
  "text_part = \<lparr>part_text = Some ''I cannot draw that.'', inline_data = None\<rparr>"

definition response_of :: "string option \<Rightarrow> part list \<Rightarrow> response" where
  "response_of t ps =
     \<lparr>response_text = t, candidates = Some [\<lparr>content = Some \<lparr>parts = Some ps\<rparr>\<rparr>]\<rparr>"

definition good_response :: response where
  "good_response = response_of (Some ''A bright room.'') [image_part]"

definition scripted_client :: "(string + response) list \<Rightarrow> backend" where
  "scripted_client answers h req =
     (if length h < length answers then answers ! length h
      else Inl ''503 Service Unavailable'')"

definition online :: "(string + response) list \<Rightarrow> globals" where
  "online answers =
     \<lparr>MODEL_TEXT = ''gemini-2.0-flash-lite'', MODEL_IMAGE = ''gemini-2.5-flash-image'',
      client = Some (scripted_client answers)\<rparr>"

definition shows_image :: "bytes \<Rightarrow> string option" where
  "shows_image b = None"

definition rejects_image :: "bytes \<Rightarrow> string option" where
  "rejects_image b = Some ''cannot identify image file''"

definition three_good :: "(string + response) list" where
  "three_good = [Inr good_response, Inr good_response, Inr good_response]"

definition after_first_run :: world where
  "after_first_run = snd (workflow (online three_good) shows_image ''Modern Bedroom'' empty_world)"

definition blank_response :: response where
  "blank_response = response_of (Some ('' '' @ [CHR 0x0A] @ '' '')) []"

definition refusal :: response where
  "refusal = response_of None [text_part]"

definition no_content_response :: response where
  "no_content_response = \<lparr>response_text = None, candidates = Some [\<lparr>content = None\<rparr>]\<rparr>"

definition audio_response :: response where
  "audio_response = response_of None [audio_part]"

definition audio_then_image :: response where
  "audio_then_image = response_of None [text_part, audio_part, image_part]"

definition text_then_image :: response where
  "text_then_image = response_of None [text_part, image_part]"

definition image_in_second_candidate :: response where
  "image_in_second_candidate =
     \<lparr>response_text = None,
      candidates = Some [\<lparr>content = Some \<lparr>parts = Some [text_part]\<rparr>\<rparr>,
                         \<lparr>content = Some \<lparr>parts = Some [image_part]\<rparr>\<rparr>]\<rparr>"

definition mid_run :: world where
  "mid_run =
     \<lparr>session = \<lparr>step1_text = Stored (Some ''A bright room.''),
                 step2_image = Stored (Some png_bytes), step3_image = Stored None\<rparr>,
      calls = [], errors = [], labels = []\<rparr>"

definition long_brief :: design_brief where
  "long_brief =
     \<lparr>room_type = ''Bedroom'', design_style = ''Scandinavian'', material_focus = ''Wood'',
      color_palette = ''Neutral'', additional_details = replicate 201 (CHR ''x'')\<rparr>"

definition empty_audio_part :: part where
  "empty_audio_part = \<lparr>part_text = None,
                        inline_data = Some \<lparr>data = Some [], mime_type = Some ''audio/wav''\<rparr>\<rparr>"

definition dataless_audio_part :: part where
  "dataless_audio_part = \<lparr>part_text = None,
                           inline_data = Some \<lparr>data = None, mime_type = Some ''audio/wav''\<rparr>\<rparr>"

definition empty_audio_response :: response where
  "empty_audio_response = response_of None [empty_audio_part]"

definition dataless_audio_response :: response where
  "dataless_audio_response = response_of None [dataless_audio_part]"

definition audio_before_image_candidate :: response where
  "audio_before_image_candidate =
     \<lparr>response_text = None,
      candidates = Some [\<lparr>content = Some \<lparr>parts = Some [audio_part]\<rparr>\<rparr>,
                         \<lparr>content = Some \<lparr>parts = Some [image_part]\<rparr>\<rparr>]\<rparr>"

section \<open>Properties\<close>

subsection \<open>Auxiliary facts\<close>

lemma strip_blank: "\<forall>ch\<in>set t. isspace ch \<Longrightarrow> strip t = []"
proof -
  assume a: "\<forall>ch\<in>set t. isspace ch"
  have h: "dropWhile isspace t = []"
    using a by (simp add: dropWhile_eq_Nil_conv)
  show ?thesis
    unfolding strip_def h by simp
qed

lemma workflow_unfold:
  "workflow g io bp w =
     workflow_step g io bp (workflow_step g io bp (workflow_step g io bp
       (workflow_step g io bp (AtInit, w))))"
  by (simp add: workflow_def eval_nat_numeral)

lemmas fixtures =
  online_def scripted_client_def response_of_def good_response_def three_good_def
  blank_response_def refusal_def no_content_response_def audio_response_def
  audio_then_image_def text_then_image_def image_in_second_candidate_def
  image_part_def audio_part_def text_part_def png_bytes_def wav_bytes_def
  shows_image_def rejects_image_def empty_world_def empty_session_def mid_run_def
  empty_audio_part_def dataless_audio_part_def empty_audio_response_def
  dataless_audio_response_def audio_before_image_candidate_def

lemmas program =
  workflow_unfold step1_enhance_prompt_def step2_generate_sketch_def step3_generate_render_def
  generate_content_def find_image_def init_session_def status_update_def st_error_def
  strip_def isspace_def Let_def

text \<open>A stage function leaves the session state and the labels alone, and calls the backend
  exactly once if there is a client and not at all otherwise.\<close>

lemma step1_world:
  "session (snd (step1_enhance_prompt g bp w)) = session w"
  "labels (snd (step1_enhance_prompt g bp w)) = labels w"
  "calls (snd (step1_enhance_prompt g bp w)) =
     (if client g = None then calls w else calls w @ [step1_request g bp])"
  by (simp_all add: step1_enhance_prompt_def generate_content_def st_error_def
      split: option.splits sum.splits prod.splits)

lemma step2_world:
  "session (snd (step2_generate_sketch g t w)) = session w"
  "labels (snd (step2_generate_sketch g t w)) = labels w"
  "calls (snd (step2_generate_sketch g t w)) =
     (if client g = None then calls w else calls w @ [step2_request g t])"
  by (simp_all add: step2_generate_sketch_def generate_content_def st_error_def
      split: option.splits sum.splits prod.splits)

lemma step3_world:
  "session (snd (step3_generate_render g sk w)) = session w"
  "labels (snd (step3_generate_render g sk w)) = labels w"
  "calls (snd (step3_generate_render g sk w)) =
     (if client g = None then calls w else calls w @ [step3_request g sk])"
  by (simp_all add: step3_generate_render_def generate_content_def st_error_def
      split: option.splits sum.splits prod.splits)

lemma offline_results:
  assumes "client g = None"
  shows "fst (step1_enhance_prompt g bp w) = None"
    and "fst (step2_generate_sketch g t w) = None"
    and "fst (step3_generate_render g sk w) = None"
  using assms
  by (simp_all add: step1_enhance_prompt_def step2_generate_sketch_def step3_generate_render_def)

text \<open>With a client, a stage function is determined by the answer to its one request.\<close>

lemma step1_answer:
  assumes "client g = Some c"
  shows "step1_enhance_prompt g bp w =
     (let w1 = w\<lparr>calls := calls w @ [step1_request g bp]\<rparr> in
      case c (calls w) (step1_request g bp) of
        Inl e \<Rightarrow> (None, st_error (''Step 1 Error: '' @ e) w1)
      | Inr r \<Rightarrow>
          (case response_text r of
             None \<Rightarrow> (None, st_error (''Step 1 Error: '' @ attribute_error ''strip'') w1)
           | Some t \<Rightarrow> (Some (strip t), w1)))"
  using assms
  by (simp add: step1_enhance_prompt_def generate_content_def Let_def
      split: sum.splits option.splits)

lemma step2_answer:
  assumes "client g = Some c"
  shows "step2_generate_sketch g t w =
     (let w1 = w\<lparr>calls := calls w @ [step2_request g t]\<rparr> in
      case c (calls w) (step2_request g t) of
        Inl e \<Rightarrow> (None, st_error (''Step 2 Error: '' @ e) w1)
      | Inr r \<Rightarrow>
          (case find_image r of
             Inl e \<Rightarrow> (None, st_error (''Step 2 Error: '' @ e) w1)
           | Inr v \<Rightarrow> (v, w1)))"
  using assms by (simp add: step2_generate_sketch_def generate_content_def split: sum.splits)

lemma step3_answer:
  assumes "client g = Some c"
  shows "step3_generate_render g sk w =
     (let w1 = w\<lparr>calls := calls w @ [step3_request g sk]\<rparr> in
      case c (calls w) (step3_request g sk) of
        Inl e \<Rightarrow> (None, st_error (''Step 3 Error: '' @ e) w1)
      | Inr r \<Rightarrow>
          (case find_image r of
             Inl e \<Rightarrow> (None, st_error (''Step 3 Error: '' @ e) w1)
           | Inr v \<Rightarrow> (v, w1)))"
  using assms by (simp add: step3_generate_render_def generate_content_def split: sum.splits)

lemma init_session_slots:
  "step1_text (init_session s) = (if step1_text s = Absent then Stored (Some '''') else step1_text s)"
  "step2_image (init_session s) = (if step2_image s = Absent then Stored None else step2_image s)"
  "step3_image (init_session s) = (if step3_image s = Absent then Stored None else step3_image s)"
  by (simp_all add: init_session_def Let_def)

lemma init_session_empty: "all_empty s \<Longrightarrow> all_empty (init_session s)"
  by (simp add: all_empty_def init_session_slots)

text \<open>The scan of a response, in terms of the first part of the first candidate that
  carries inline data.\<close>

lemma first_inline_data_find:
  "first_inline_data ps = map_option payload (find carries_inline_data ps)"
  by (induction ps) (auto simp: carries_inline_data_def payload_def split: option.splits)

lemma find_image_eq:
  "find_image r =
     (if first_candidate_lacks_content r then Inl (attribute_error ''parts'')
      else Inr (case find carries_inline_data (first_candidate_parts r) of
                  None \<Rightarrow> None
                | Some p \<Rightarrow> payload p))"
  by (simp add: find_image_def first_candidate_lacks_content_def first_candidate_parts_def
      candidate_parts_def first_inline_data_find split: option.splits list.splits)

lemma find_None_no_inline:
  "(\<forall>p\<in>set ps. \<not> carries_inline_data p) \<Longrightarrow> find carries_inline_data ps = None"
  by (simp add: find_None_iff)

text \<open>The invariant of a run that starts with empty slots is kept by every step.\<close>

lemma run_inv_step: "run_inv x \<Longrightarrow> run_inv (workflow_step g io bp x)"
proof -
  assume inv: "run_inv x"
  obtain p w where x: "x = (p, w)"
    by (cases x)
  show ?thesis
  proof (cases p)
    case AtInit
    with inv x show ?thesis
      by (simp add: init_session_empty)
  next
    case AtStep1
    with inv x show ?thesis
      by (simp add: split_beta Let_def status_update_def step1_world all_empty_def monotonic_fill_def)
  next
    case AtStep2
    with inv x show ?thesis
      by (auto simp: split_beta Let_def status_update_def step2_world monotonic_fill_def
          split: slot.splits option.splits)
  next
    case AtStep3
    with inv x show ?thesis
      by (auto simp: split_beta Let_def status_update_def step3_world monotonic_fill_def
          split: slot.splits option.splits)
  next
    case (Halted h)
    with inv x show ?thesis
      by simp
  qed
qed

lemma run_inv_upto:
  "all_empty (session w) \<Longrightarrow> run_inv (workflow_upto n g io bp w)"
  by (induction n) (simp_all add: run_inv_step)

lemma run_inv_monotonic: "run_inv (p, w) \<Longrightarrow> monotonic_fill (session w)"
  by (cases p) (simp_all add: all_empty_def monotonic_fill_def)


text \<open>
  Two runs in one session. The first one succeeds at every stage; by then the script of
  the backend is used up, so the second one fails at stage 1.
\<close>

lemma first_run:
  "after_first_run =
     \<lparr>session = \<lparr>step1_text = Stored (Some ''A bright room.''),
                 step2_image = Stored (Some png_bytes), step3_image = Stored (Some png_bytes)\<rparr>,
      calls = [step1_request (online three_good) ''Modern Bedroom'',
               step2_request (online three_good) (Some ''A bright room.''),
               step3_request (online three_good) (Some png_bytes)],
      errors = [],
      labels = [''Brief Enhanced!'', ''Sketch Generated!'', ''Render Complete!'']\<rparr>"
  by (simp add: after_first_run_def workflow_unfold step1_enhance_prompt_def
      step2_generate_sketch_def step3_generate_render_def generate_content_def find_image_def
      online_def scripted_client_def three_good_def good_response_def response_of_def
      image_part_def png_bytes_def shows_image_def empty_world_def empty_session_def
      init_session_def status_update_def strip_def isspace_def Let_def)

lemma second_run:
  "workflow_upto 1 (online three_good) shows_image ''Modern Bedroom'' after_first_run
     = (AtStep1, after_first_run)"
  "workflow_upto 2 (online three_good) shows_image ''Modern Bedroom'' after_first_run
     = (Halted Stopped,
        after_first_run\<lparr>session := (session after_first_run)\<lparr>step1_text := Stored None\<rparr>,
          calls := calls after_first_run @ [step1_request (online three_good) ''Modern Bedroom''],
          errors := [''Step 1 Error: 503 Service Unavailable''],
          labels := labels after_first_run @ [''Step 1 Failed'']\<rparr>)"
  "workflow (online three_good) shows_image ''Modern Bedroom'' after_first_run
     = workflow_upto 2 (online three_good) shows_image ''Modern Bedroom'' after_first_run"
  by (simp_all add: first_run eval_nat_numeral program online_def scripted_client_def three_good_def)

subsection \<open>C1: the run halts at the first failing stage\<close>

text \<open>
  C1 says that when stage \<open>N\<close> fails, the later stages are not invoked, their slots stay
  empty, and the artifacts of the earlier stages remain. On the code the slots of the later
  stages are left as they were when the run began, and that need not be empty: the session
  state outlives a run, and lines 222 to 224 initialise a key only when it is absent. In the
  second of two runs below, stage 1 fails while the slots of stages 2 and 3 still hold the
  images of the first run.
\<close>

theorem stale_slots_after_failure:
  "fst (step1_enhance_prompt (online three_good) ''Modern Bedroom''
          (after_first_run\<lparr>session := init_session (session after_first_run)\<rparr>)) = None
   \<and> fst (workflow (online three_good) shows_image ''Modern Bedroom'' after_first_run)
       = Halted Stopped
   \<and> step2_image (session (snd (workflow (online three_good) shows_image ''Modern Bedroom''
        after_first_run))) = Stored (Some png_bytes)
   \<and> step3_image (session (snd (workflow (online three_good) shows_image ''Modern Bedroom''
        after_first_run))) = Stored (Some png_bytes)"
  by (simp add: second_run) (simp add: first_run program online_def scripted_client_def three_good_def)

text \<open>
  C1, in the form that holds of the code. Let \<open>r1\<close>, \<open>r2\<close>, \<open>r3\<close> be what the stage functions return in a run from
  any world \<open>w\<close>. If stage 1 fails (its result is falsy), the block stops, the only call to
  the backend is the one of stage 1 (none when there is no client), and the slots of stages
  2 and 3 hold what they held after the initialisation of the session state: what they held
  before the run, or \<^verbatim>\<open>None\<close> if they were absent. If stage 1 succeeds and stage 2 fails,
  the block stops, the calls are exactly those of stages 1 and 2, slot 1 holds the enhanced
  brief and slot 3 is as it was after the initialisation. If stages 1 and 2 succeed, the
  sketch is shown and stage 3 fails, the block ends with exactly the three calls and slots 1
  and 2 hold their artifacts.
\<close>

theorem first_failure_halts:
  fixes g image_open bp w
  defines "w0 \<equiv> w\<lparr>session := init_session (session w)\<rparr>"
  defines "r1 \<equiv> fst (step1_enhance_prompt g bp w0)"
  defines "w1 \<equiv> status_update ''Brief Enhanced!''
                  ((snd (step1_enhance_prompt g bp w0))\<lparr>session := (session w0)\<lparr>step1_text := Stored r1\<rparr>\<rparr>)"
  defines "r2 \<equiv> fst (step2_generate_sketch g r1 w1)"
  defines "w2 \<equiv> status_update ''Sketch Generated!''
                  ((snd (step2_generate_sketch g r1 w1))\<lparr>session := (session w1)\<lparr>step2_image := Stored r2\<rparr>\<rparr>)"
  defines "r3 \<equiv> fst (step3_generate_render g r2 w2)"
  defines "wend \<equiv> snd (workflow g image_open bp w)"
  shows "(\<not> truthy r1 \<longrightarrow>
            fst (workflow g image_open bp w) = Halted Stopped
          \<and> calls wend = (if client g = None then calls w else calls w @ [step1_request g bp])
          \<and> step1_text (session wend) = Stored r1
          \<and> step2_image (session wend) = step2_image (init_session (session w))
          \<and> step3_image (session wend) = step3_image (init_session (session w)))
       \<and> (truthy r1 \<and> \<not> truthy r2 \<longrightarrow>
            fst (workflow g image_open bp w) = Halted Stopped
          \<and> calls wend = calls w @ [step1_request g bp, step2_request g r1]
          \<and> step1_text (session wend) = Stored r1
          \<and> step2_image (session wend) = Stored r2
          \<and> step3_image (session wend) = step3_image (init_session (session w)))
       \<and> (truthy r1 \<and> truthy r2 \<and> image_open (the r2) = None \<and> \<not> truthy r3 \<longrightarrow>
            fst (workflow g image_open bp w) = Halted Finished
          \<and> calls wend = calls w @ [step1_request g bp, step2_request g r1, step3_request g r2]
          \<and> step1_text (session wend) = Stored r1
          \<and> step2_image (session wend) = Stored r2
          \<and> step3_image (session wend) = Stored r3)"
proof -
  have c1: "client g \<noteq> None" if "truthy r1"
  proof
    assume "client g = None"
    then have "r1 = None"
      unfolding r1_def by (rule offline_results(1))
    with that show False by simp
  qed
  have i0: "workflow_step g image_open bp (AtInit, w) = (AtStep1, w0)"
    by (simp add: w0_def)
  have b: "workflow_step g image_open bp (AtStep1, w0) = (AtStep2, w1)" if "truthy r1"
    using that by (simp add: split_beta Let_def r1_def w1_def step1_world)
  have a': "workflow_step g image_open bp (AtStep1, w0) =
      (Halted Stopped, status_update ''Step 1 Failed''
         ((snd (step1_enhance_prompt g bp w0))\<lparr>session := (session w0)\<lparr>step1_text := Stored r1\<rparr>\<rparr>))"
    if "\<not> truthy r1"
    using that by (simp add: split_beta Let_def r1_def step1_world)
  have s1: "step1_text (session w1) = Stored r1"
    by (simp add: w1_def status_update_def)
  have c': "workflow_step g image_open bp (AtStep2, w1) =
      (Halted Stopped, status_update ''Step 2 Failed''
         ((snd (step2_generate_sketch g r1 w1))\<lparr>session := (session w1)\<lparr>step2_image := Stored r2\<rparr>\<rparr>))"
    if "\<not> truthy r2"
    using that by (simp add: s1 split_beta Let_def r2_def step2_world)
  have d: "workflow_step g image_open bp (AtStep2, w1) = (AtStep3, w2)"
    if "truthy r2" "image_open (the r2) = None"
    using that by (simp add: s1 split_beta Let_def r2_def w2_def step2_world)
  have s2: "step2_image (session w2) = Stored r2"
    by (simp add: w2_def status_update_def)
  have e': "workflow_step g image_open bp (AtStep3, w2) =
      (Halted Finished, status_update ''Step 3 Failed''
         ((snd (step3_generate_render g r2 w2))\<lparr>session := (session w2)\<lparr>step3_image := Stored r3\<rparr>\<rparr>))"
    if "\<not> truthy r3"
    using that by (simp add: s2 split_beta Let_def r3_def step3_world)
  have a: "workflow g image_open bp w =
      (Halted Stopped, status_update ''Step 1 Failed''
         ((snd (step1_enhance_prompt g bp w0))\<lparr>session := (session w0)\<lparr>step1_text := Stored r1\<rparr>\<rparr>))"
    if "\<not> truthy r1"
    unfolding workflow_unfold i0 a' [OF that] by simp
  have c: "workflow g image_open bp w =
      (Halted Stopped, status_update ''Step 2 Failed''
         ((snd (step2_generate_sketch g r1 w1))\<lparr>session := (session w1)\<lparr>step2_image := Stored r2\<rparr>\<rparr>))"
    if "truthy r1" "\<not> truthy r2"
    unfolding workflow_unfold i0 b [OF that(1)] c' [OF that(2)] by simp
  have e: "workflow g image_open bp w =
      (Halted Finished, status_update ''Step 3 Failed''
         ((snd (step3_generate_render g r2 w2))\<lparr>session := (session w2)\<lparr>step3_image := Stored r3\<rparr>\<rparr>))"
    if "truthy r1" "truthy r2" "image_open (the r2) = None" "\<not> truthy r3"
    unfolding workflow_unfold i0 b [OF that(1)] d [OF that(2,3)] e' [OF that(4)] by (rule refl)
  have p1: "\<not> truthy r1 \<longrightarrow>
            fst (workflow g image_open bp w) = Halted Stopped
          \<and> calls wend = (if client g = None then calls w else calls w @ [step1_request g bp])
          \<and> step1_text (session wend) = Stored r1
          \<and> step2_image (session wend) = step2_image (init_session (session w))
          \<and> step3_image (session wend) = step3_image (init_session (session w))"
  proof (intro impI)
    assume t: "\<not> truthy r1"
    show "fst (workflow g image_open bp w) = Halted Stopped
          \<and> calls wend = (if client g = None then calls w else calls w @ [step1_request g bp])
          \<and> step1_text (session wend) = Stored r1
          \<and> step2_image (session wend) = step2_image (init_session (session w))
          \<and> step3_image (session wend) = step3_image (init_session (session w))"
      by (simp add: a [OF t] wend_def status_update_def step1_world w0_def)
  qed
  have p2: "truthy r1 \<and> \<not> truthy r2 \<longrightarrow>
            fst (workflow g image_open bp w) = Halted Stopped
          \<and> calls wend = calls w @ [step1_request g bp, step2_request g r1]
          \<and> step1_text (session wend) = Stored r1
          \<and> step2_image (session wend) = Stored r2
          \<and> step3_image (session wend) = step3_image (init_session (session w))"
  proof (intro impI)
    assume h: "truthy r1 \<and> \<not> truthy r2"
    then have t: "truthy r1" "\<not> truthy r2"
      by simp_all
    show "fst (workflow g image_open bp w) = Halted Stopped
          \<and> calls wend = calls w @ [step1_request g bp, step2_request g r1]
          \<and> step1_text (session wend) = Stored r1
          \<and> step2_image (session wend) = Stored r2
          \<and> step3_image (session wend) = step3_image (init_session (session w))"
      using c1 [OF t(1)]
      by (simp add: c [OF t] wend_def status_update_def step1_world step2_world w0_def w1_def)
  qed
  have p3: "truthy r1 \<and> truthy r2 \<and> image_open (the r2) = None \<and> \<not> truthy r3 \<longrightarrow>
            fst (workflow g image_open bp w) = Halted Finished
          \<and> calls wend = calls w @ [step1_request g bp, step2_request g r1, step3_request g r2]
          \<and> step1_text (session wend) = Stored r1
          \<and> step2_image (session wend) = Stored r2
          \<and> step3_image (session wend) = Stored r3"
  proof (intro impI)
    assume h: "truthy r1 \<and> truthy r2 \<and> image_open (the r2) = None \<and> \<not> truthy r3"
    then have t: "truthy r1" "truthy r2" "image_open (the r2) = None" "\<not> truthy r3"
      by simp_all
    show "fst (workflow g image_open bp w) = Halted Finished
          \<and> calls wend = calls w @ [step1_request g bp, step2_request g r1, step3_request g r2]
          \<and> step1_text (session wend) = Stored r1
          \<and> step2_image (session wend) = Stored r2
          \<and> step3_image (session wend) = Stored r3"
      using c1 [OF t(1)]
      by (simp add: e [OF t] wend_def status_update_def step1_world step2_world step3_world
          w0_def w1_def w2_def)
  qed
  show ?thesis
    using p1 p2 p3 by blast
qed

theorem first_failure_halts_witness:
  "fst (workflow (online []) shows_image ''Modern Bedroom'' empty_world) = Halted Stopped
   \<and> calls (snd (workflow (online []) shows_image ''Modern Bedroom'' empty_world))
       = [step1_request (online []) ''Modern Bedroom'']
   \<and> step2_image (session (snd (workflow (online []) shows_image ''Modern Bedroom'' empty_world)))
       = Stored None
   \<and> step3_image (session (snd (workflow (online []) shows_image ''Modern Bedroom'' empty_world)))
       = Stored None
   \<and> fst (workflow (online [Inr good_response, Inr refusal]) shows_image ''Modern Bedroom''
        empty_world) = Halted Stopped
   \<and> calls (snd (workflow (online [Inr good_response, Inr refusal]) shows_image ''Modern Bedroom''
        empty_world))
       = [step1_request (online [Inr good_response, Inr refusal]) ''Modern Bedroom'',
          step2_request (online [Inr good_response, Inr refusal]) (Some ''A bright room.'')]
   \<and> step1_text (session (snd (workflow (online [Inr good_response, Inr refusal]) shows_image
        ''Modern Bedroom'' empty_world))) = Stored (Some ''A bright room.'')
   \<and> step3_image (session (snd (workflow (online [Inr good_response, Inr refusal]) shows_image
        ''Modern Bedroom'' empty_world))) = Stored None
   \<and> fst (workflow (online [Inr good_response, Inr good_response, Inr refusal]) shows_image
        ''Modern Bedroom'' empty_world) = Halted Finished
   \<and> step2_image (session (snd (workflow (online [Inr good_response, Inr good_response, Inr refusal])
        shows_image ''Modern Bedroom'' empty_world))) = Stored (Some png_bytes)
   \<and> step3_image (session (snd (workflow (online [Inr good_response, Inr good_response, Inr refusal])
        shows_image ''Modern Bedroom'' empty_world))) = Stored None"
  using first_failure_halts [where g = "online []" and bp = "''Modern Bedroom''"
      and w = empty_world and image_open = shows_image]
    first_failure_halts [where g = "online [Inr good_response, Inr refusal]"
      and bp = "''Modern Bedroom''" and w = empty_world and image_open = shows_image]
    first_failure_halts [where g = "online [Inr good_response, Inr good_response, Inr refusal]"
      and bp = "''Modern Bedroom''" and w = empty_world and image_open = shows_image]
  by (simp add: program fixtures)

subsection \<open>C2: the slots fill from left to right\<close>

text \<open>
  C2 says that at every point of every run a non-empty slot has only successful slots before
  it. This fails in a run that starts from a session state an earlier run has filled: after
  stage 1 of the second run has failed, slot 1 holds \<^verbatim>\<open>None\<close> while slot 2 still holds the
  sketch of the first run.
\<close>

theorem stale_sketch_breaks_fill_order:
  "step1_text (session (snd (workflow_upto 2 (online three_good) shows_image ''Modern Bedroom''
        after_first_run))) = Stored None
   \<and> step2_image (session (snd (workflow_upto 2 (online three_good) shows_image ''Modern Bedroom''
        after_first_run))) = Stored (Some png_bytes)
   \<and> \<not> monotonic_fill (session (snd (workflow_upto 2 (online three_good) shows_image
        ''Modern Bedroom'' after_first_run)))"
  by (simp add: second_run monotonic_fill_def) (simp add: first_run png_bytes_def)

text \<open>
  C2, in the form that holds of the code. In every run that starts from a session state whose three slots are empty
  (absent, \<^verbatim>\<open>None\<close> or the empty string), at every control point, after any number of
  steps, a slot is non-empty only if every earlier slot is non-empty.
\<close>

theorem fresh_run_fills_left_to_right:
  assumes "all_empty (session w)"
  shows "monotonic_fill (session (snd (workflow_upto n g image_open bp w)))"
proof -
  have "run_inv (workflow_upto n g image_open bp w)"
    using assms by (rule run_inv_upto)
  then show ?thesis
    by (metis run_inv_monotonic prod.collapse)
qed

theorem fresh_run_fills_left_to_right_witness:
  "all_empty (session empty_world)
   \<and> step2_image (session (snd (workflow_upto 3 (online three_good) shows_image ''Modern Bedroom''
        empty_world))) = Stored (Some png_bytes)
   \<and> monotonic_fill (session (snd (workflow_upto 3 (online three_good) shows_image
        ''Modern Bedroom'' empty_world)))"
proof -
  have e: "all_empty (session empty_world)"
    by (simp add: all_empty_def empty_world_def empty_session_def)
  have s: "step2_image (session (snd (workflow_upto 3 (online three_good) shows_image
        ''Modern Bedroom'' empty_world))) = Stored (Some png_bytes)"
    by (simp add: eval_nat_numeral program fixtures)
  show ?thesis
    using e s fresh_run_fills_left_to_right [OF e, where n = 3 and g = "online three_good"
        and image_open = shows_image and bp = "''Modern Bedroom''"]
    by simp
qed

subsection \<open>C3: a response with blank text\<close>

text \<open>
  C3 says that on a response whose text is empty or only whitespace stage 1 returns a
  failure and never a silent empty string. The function returns \<^verbatim>\<open>response.text.strip()\<close>,
  which is the empty string, and shows no message.
\<close>

theorem blank_text_returned:
  "fst (step1_enhance_prompt (online [Inr blank_response]) ''Modern Bedroom'' empty_world) = Some ''''
   \<and> errors (snd (step1_enhance_prompt (online [Inr blank_response]) ''Modern Bedroom''
        empty_world)) = []"
  by (simp add: program fixtures)

text \<open>
  C3, in the form that holds of the code. On a response whose text is empty or only whitespace,
  \<^verbatim>\<open>step1_enhance_prompt\<close> returns the empty string, having made its one call and shown no
  message; it raises nothing. The workflow takes the empty string for a failure of stage 1:
  it sets the label to \<^verbatim>\<open>Step 1 Failed\<close> and stops, with no further call and no message.
  A call that raises is told apart from this: there the function returns \<^verbatim>\<open>None\<close> and
  shows \<^verbatim>\<open>Step 1 Error:\<close> with the message of the exception.
\<close>

theorem blank_text_is_empty_string:
  assumes "client g = Some c"
  shows "(c (calls w) (step1_request g bp) = Inr r \<and> response_text r = Some t
            \<and> (\<forall>ch\<in>set t. isspace ch) \<longrightarrow>
            step1_enhance_prompt g bp w = (Some '''', w\<lparr>calls := calls w @ [step1_request g bp]\<rparr>)
          \<and> fst (workflow g image_open bp w) = Halted Stopped
          \<and> calls (snd (workflow g image_open bp w)) = calls w @ [step1_request g bp]
          \<and> errors (snd (workflow g image_open bp w)) = errors w
          \<and> labels (snd (workflow g image_open bp w)) = labels w @ [''Step 1 Failed''])
       \<and> (c (calls w) (step1_request g bp) = Inl e \<longrightarrow>
            step1_enhance_prompt g bp w =
              (None, w\<lparr>calls := calls w @ [step1_request g bp],
                        errors := errors w @ [''Step 1 Error: '' @ e]\<rparr>))"
proof -
  have a: "step1_enhance_prompt g bp w' = (Some '''', w'\<lparr>calls := calls w' @ [step1_request g bp]\<rparr>)"
    if "c (calls w') (step1_request g bp) = Inr r" "response_text r = Some t"
      "\<forall>ch\<in>set t. isspace ch" for w'
    using that by (simp add: step1_answer [OF assms] strip_blank)
  have b: "workflow g image_open bp w =
      (Halted Stopped, status_update ''Step 1 Failed''
         (w\<lparr>session := (init_session (session w))\<lparr>step1_text := Stored (Some '''')\<rparr>,
            calls := calls w @ [step1_request g bp]\<rparr>))"
    if "c (calls w) (step1_request g bp) = Inr r" "response_text r = Some t"
      "\<forall>ch\<in>set t. isspace ch"
    using that by (simp add: workflow_unfold a status_update_def)
  have d: "step1_enhance_prompt g bp w =
      (None, w\<lparr>calls := calls w @ [step1_request g bp],
                errors := errors w @ [''Step 1 Error: '' @ e]\<rparr>)"
    if "c (calls w) (step1_request g bp) = Inl e"
    using that by (simp add: step1_answer [OF assms] st_error_def)
  show ?thesis
    using a [of w] b d by (simp add: status_update_def)
qed

theorem blank_text_is_empty_string_witness:
  "step1_enhance_prompt (online [Inr blank_response]) ''Modern Bedroom'' empty_world
     = (Some '''', empty_world\<lparr>calls := [step1_request (online [Inr blank_response])
                                            ''Modern Bedroom'']\<rparr>)
   \<and> fst (workflow (online [Inr blank_response]) shows_image ''Modern Bedroom'' empty_world)
       = Halted Stopped
   \<and> labels (snd (workflow (online [Inr blank_response]) shows_image ''Modern Bedroom''
        empty_world)) = [''Step 1 Failed'']
   \<and> step1_enhance_prompt (online []) ''Modern Bedroom'' empty_world
       = (None, empty_world\<lparr>calls := [step1_request (online []) ''Modern Bedroom''],
                   errors := [''Step 1 Error: '' @ ''503 Service Unavailable'']\<rparr>)"
proof -
  have b: "\<forall>ch\<in>set ('' '' @ [CHR 0x0A] @ '' ''). isspace ch"
    by (simp add: isspace_def)
  have c1: "client (online [Inr blank_response]) = Some (scripted_client [Inr blank_response])"
    and c2: "client (online []) = Some (scripted_client [])"
    by (simp_all add: online_def)
  show ?thesis
    using b
      blank_text_is_empty_string [OF c1, where w = empty_world and bp = "''Modern Bedroom''"
        and r = blank_response and t = "'' '' @ [CHR 0x0A] @ '' ''" and image_open = shows_image]
      blank_text_is_empty_string [OF c2, where w = empty_world and bp = "''Modern Bedroom''"
        and e = "''503 Service Unavailable''"]
    by (simp add: scripted_client_def blank_response_def response_of_def empty_world_def)
qed

subsection \<open>C4: a response without an image\<close>

text \<open>
  C4 says that on a response with no inline-image part stages 2 and 3 return a failure, never
  a success that carries no image, and that this outcome is distinct from a transport error.
  The code tests only whether a part has inline data. A response whose only inline part is
  audio has no inline-image part, and both stages return the audio bytes. And a response whose
  first candidate has no content takes the path of the exception handler, as a transport
  error does: \<^verbatim>\<open>None\<close> and a message \<^verbatim>\<open>Step 2 Error:\<close>.
\<close>

theorem non_image_payload_is_success:
  "filter carries_inline_image (returned_parts audio_response) = []
   \<and> fst (step2_generate_sketch (online [Inr audio_response]) (Some ''A bright room.'') empty_world)
       = Some wav_bytes
   \<and> fst (step3_generate_render (online [Inr audio_response]) (Some png_bytes) empty_world)
       = Some wav_bytes
   \<and> filter carries_inline_image (returned_parts no_content_response) = []
   \<and> step2_generate_sketch (online [Inr no_content_response]) (Some ''A bright room.'') empty_world
       = (None, empty_world\<lparr>calls := [step2_request (online [Inr no_content_response])
                                        (Some ''A bright room.'')],
                   errors := [''Step 2 Error: '' @ attribute_error ''parts'']\<rparr>)
   \<and> step2_generate_sketch (online [Inl ''503 Service Unavailable'']) (Some ''A bright room.'')
        empty_world
       = (None, empty_world\<lparr>calls := [step2_request (online [Inl ''503 Service Unavailable''])
                                        (Some ''A bright room.'')],
                   errors := [''Step 2 Error: '' @ ''503 Service Unavailable'']\<rparr>)"
  by (simp add: program fixtures returned_parts_def candidate_parts_def carries_inline_image_def)

text \<open>
  C4, in the form that holds of the code. On a response whose first candidate has no part that carries inline data
  of any kind (no candidates, no parts, or parts without inline data), stages 2 and 3 return
  \<^verbatim>\<open>None\<close> after their one call, and raise nothing. When the first candidate has a content
  (or there is no candidate) no message is shown, which tells this outcome from a call that
  raises: there the stage returns \<^verbatim>\<open>None\<close> and shows \<^verbatim>\<open>Step N Error:\<close> with the message
  of the exception.
\<close>

theorem no_inline_data_no_image:
  assumes "client g = Some c"
    and "\<forall>p\<in>set (first_candidate_parts r). \<not> carries_inline_data p"
  shows "(c (calls w) (step2_request g t) = Inr r \<longrightarrow>
            fst (step2_generate_sketch g t w) = None
          \<and> calls (snd (step2_generate_sketch g t w)) = calls w @ [step2_request g t]
          \<and> (\<not> first_candidate_lacks_content r \<longrightarrow>
               errors (snd (step2_generate_sketch g t w)) = errors w))
       \<and> (c (calls w) (step3_request g sk) = Inr r \<longrightarrow>
            fst (step3_generate_render g sk w) = None
          \<and> calls (snd (step3_generate_render g sk w)) = calls w @ [step3_request g sk]
          \<and> (\<not> first_candidate_lacks_content r \<longrightarrow>
               errors (snd (step3_generate_render g sk w)) = errors w))
       \<and> (c (calls w) (step2_request g t) = Inl e \<longrightarrow>
            fst (step2_generate_sketch g t w) = None
          \<and> errors (snd (step2_generate_sketch g t w)) = errors w @ [''Step 2 Error: '' @ e])
       \<and> (c (calls w) (step3_request g sk) = Inl e \<longrightarrow>
            fst (step3_generate_render g sk w) = None
          \<and> errors (snd (step3_generate_render g sk w)) = errors w @ [''Step 3 Error: '' @ e])"
proof -
  have f: "find carries_inline_data (first_candidate_parts r) = None"
    using assms(2) by (rule find_None_no_inline)
  show ?thesis
    by (simp add: step2_answer [OF assms(1)] step3_answer [OF assms(1)] find_image_eq f
        st_error_def)
qed

theorem no_inline_data_no_image_witness:
  "fst (step2_generate_sketch (online [Inr refusal]) (Some ''A bright room.'') empty_world) = None
   \<and> errors (snd (step2_generate_sketch (online [Inr refusal]) (Some ''A bright room.'')
        empty_world)) = []
   \<and> fst (step3_generate_render (online [Inr refusal]) (Some png_bytes) empty_world) = None
   \<and> errors (snd (step3_generate_render (online [Inr refusal]) (Some png_bytes) empty_world)) = []
   \<and> errors (snd (step2_generate_sketch (online []) (Some ''A bright room.'') empty_world))
       = [''Step 2 Error: '' @ ''503 Service Unavailable'']
   \<and> errors (snd (step3_generate_render (online []) (Some png_bytes) empty_world))
       = [''Step 3 Error: '' @ ''503 Service Unavailable'']"
proof -
  have n: "\<forall>p\<in>set (first_candidate_parts refusal). \<not> carries_inline_data p"
    by (simp add: first_candidate_parts_def candidate_parts_def carries_inline_data_def
        refusal_def response_of_def text_part_def)
  have l: "\<not> first_candidate_lacks_content refusal"
    by (simp add: first_candidate_lacks_content_def refusal_def response_of_def)
  have c1: "client (online [Inr refusal]) = Some (scripted_client [Inr refusal])"
    and c2: "client (online []) = Some (scripted_client [])"
    by (simp_all add: online_def)
  show ?thesis
    using l
      no_inline_data_no_image [OF c1 n, where w = empty_world and t = "Some ''A bright room.''"
        and sk = "Some png_bytes"]
      no_inline_data_no_image [OF c2 n, where w = empty_world and t = "Some ''A bright room.''"
        and sk = "Some png_bytes" and e = "''503 Service Unavailable''"]
    by (simp add: scripted_client_def empty_world_def)
qed

subsection \<open>C5: the first part with inline data wins\<close>

text \<open>
  C5 says that on a response with a part that carries inline image data the stage returns the
  data of the first such part. The code returns the data of the first part that carries any
  inline data, and it looks at the first candidate only. On a response with an audio part
  before the image part, the first part that carries inline image data is the image part, and
  both stages return the audio bytes. On a response whose image part is in the second
  candidate, stage 2 returns \<^verbatim>\<open>None\<close>.
\<close>

theorem first_image_part_skipped:
  "find carries_inline_image (returned_parts audio_then_image) = Some image_part
   \<and> payload image_part = Some png_bytes
   \<and> fst (step2_generate_sketch (online [Inr audio_then_image]) (Some ''A bright room.'')
        empty_world) = Some wav_bytes
   \<and> fst (step3_generate_render (online [Inr audio_then_image]) (Some png_bytes) empty_world)
       = Some wav_bytes
   \<and> wav_bytes \<noteq> png_bytes
   \<and> find carries_inline_image (returned_parts image_in_second_candidate) = Some image_part
   \<and> fst (step2_generate_sketch (online [Inr image_in_second_candidate]) (Some ''A bright room.'')
        empty_world) = None"
  by (simp add: program fixtures returned_parts_def candidate_parts_def carries_inline_image_def
      payload_def)

text \<open>
  C5, in the form that holds of the code. On a response whose first candidate has a part that carries inline data,
  stages 2 and 3 both return \<^verbatim>\<open>inline_data.data\<close> of the first such part in the order of
  the list, after their one call and with no message.
\<close>

theorem first_inline_data_wins:
  assumes "client g = Some c"
    and "find carries_inline_data (first_candidate_parts r) = Some p"
  shows "(c (calls w) (step2_request g t) = Inr r \<longrightarrow>
            step2_generate_sketch g t w = (payload p, w\<lparr>calls := calls w @ [step2_request g t]\<rparr>))
       \<and> (c (calls w) (step3_request g sk) = Inr r \<longrightarrow>
            step3_generate_render g sk w = (payload p, w\<lparr>calls := calls w @ [step3_request g sk]\<rparr>))"
proof -
  have "first_candidate_parts r \<noteq> []"
    using assms(2) by auto
  then have l: "\<not> first_candidate_lacks_content r"
    by (auto simp: first_candidate_parts_def first_candidate_lacks_content_def candidate_parts_def
        split: option.splits list.splits)
  show ?thesis
    by (simp add: step2_answer [OF assms(1)] step3_answer [OF assms(1)] find_image_eq l assms(2))
qed

theorem first_inline_data_wins_witness:
  "step2_generate_sketch (online [Inr text_then_image]) (Some ''A bright room.'') empty_world
     = (Some png_bytes,
        empty_world\<lparr>calls := [step2_request (online [Inr text_then_image]) (Some ''A bright room.'')]\<rparr>)
   \<and> step3_generate_render (online [Inr text_then_image]) (Some png_bytes) empty_world
     = (Some png_bytes,
        empty_world\<lparr>calls := [step3_request (online [Inr text_then_image]) (Some png_bytes)]\<rparr>)"
proof -
  have f: "find carries_inline_data (first_candidate_parts text_then_image) = Some image_part"
    by (simp add: first_candidate_parts_def candidate_parts_def carries_inline_data_def
        text_then_image_def response_of_def text_part_def image_part_def)
  have c: "client (online [Inr text_then_image]) = Some (scripted_client [Inr text_then_image])"
    by (simp add: online_def)
  have p: "payload image_part = Some png_bytes"
    by (simp add: payload_def image_part_def)
  show ?thesis
    using first_inline_data_wins [OF c f, where w = empty_world and t = "Some ''A bright room.''"
        and sk = "Some png_bytes"]
    by (simp add: p scripted_client_def empty_world_def)
qed

subsection \<open>C6: a long brief is truncated\<close>

text \<open>
  C6. When the free-text details have more than 200 characters, the prompt of stage 1 is the
  fixed template followed by the first 200 characters of the brief text, which are exactly
  200 characters and not the whole brief text. The brief is not rejected: stage 1 does on it
  what it does on the truncated text, and with a client it makes its call, with the request
  of the truncated text.
\<close>

theorem long_brief_truncated:
  assumes "200 < length (additional_details b)"
  shows "step1_prompt (base_prompt b) = step1_prompt [] @ take 200 (base_prompt b)
       \<and> length (take 200 (base_prompt b)) = 200
       \<and> take 200 (base_prompt b) \<noteq> base_prompt b
       \<and> step1_enhance_prompt g (base_prompt b) w
           = step1_enhance_prompt g (take 200 (base_prompt b)) w
       \<and> (client g \<noteq> None \<longrightarrow>
            calls (snd (step1_enhance_prompt g (base_prompt b) w))
              = calls w @ [step1_request g (take 200 (base_prompt b))])"
proof -
  have len: "200 < length (base_prompt b)"
    using assms by (simp add: base_prompt_def)
  have p: "step1_prompt (base_prompt b) = step1_prompt (take 200 (base_prompt b))"
    by (simp add: step1_prompt_def)
  have q: "step1_request g (base_prompt b) = step1_request g (take 200 (base_prompt b))"
    by (simp add: step1_request_def p)
  have ne: "take 200 (base_prompt b) \<noteq> base_prompt b"
  proof
    assume "take 200 (base_prompt b) = base_prompt b"
    then have "length (take 200 (base_prompt b)) = length (base_prompt b)"
      by simp
    with len show False by simp
  qed
  have e: "step1_enhance_prompt g (base_prompt b) w
      = step1_enhance_prompt g (take 200 (base_prompt b)) w"
    unfolding step1_enhance_prompt_def q by (rule refl)
  have c: "calls (snd (step1_enhance_prompt g bp w)) = calls w @ [step1_request g bp]"
    if "client g \<noteq> None" for bp
    using that
    by (auto simp: step1_enhance_prompt_def generate_content_def st_error_def
        split: option.splits sum.splits prod.splits)
  have t: "step1_prompt (base_prompt b) = step1_prompt [] @ take 200 (base_prompt b)"
    by (simp add: step1_prompt_def)
  have l: "length (take 200 (base_prompt b)) = 200"
    using len by simp
  show ?thesis
    using t l ne e c [of "take 200 (base_prompt b)"] by (simp only: e) blast
qed

theorem long_brief_truncated_witness:
  "200 < length (additional_details long_brief)
   \<and> length (take 200 (base_prompt long_brief)) = 200
   \<and> take 200 (base_prompt long_brief) \<noteq> base_prompt long_brief
   \<and> calls (snd (step1_enhance_prompt (online []) (base_prompt long_brief) empty_world))
       = calls empty_world @ [step1_request (online []) (take 200 (base_prompt long_brief))]"
proof -
  have h: "200 < length (additional_details long_brief)"
    by (simp add: long_brief_def)
  have c: "client (online []) \<noteq> None"
    by (simp add: online_def)
  show ?thesis
    using h c long_brief_truncated [OF h, where g = "online []" and w = empty_world]
    by blast
qed

subsection \<open>C7: the backend is unavailable\<close>

text \<open>
  C7. When the construction of the client raises, the exception is caught and \<open>client\<close> is
  \<^verbatim>\<open>None\<close>; then each of the three stage functions returns \<^verbatim>\<open>None\<close> at once and leaves
  the world as it was: no call to the backend, no message. The workflow block ends at
  \<^verbatim>\<open>st.stop()\<close> after stage 1, it raises nothing, and it has called the backend zero times.
\<close>

theorem backend_unavailable_no_calls:
  assumes "genai_Client (environ ''GOOGLE_CLOUD_PROJECT'')
             (environ_get environ ''GOOGLE_CLOUD_REGION'' ''us-central1'') = Inl e"
  shows "client (module_setup environ genai_Client) = None
       \<and> step1_enhance_prompt (module_setup environ genai_Client) bp w = (None, w)
       \<and> step2_generate_sketch (module_setup environ genai_Client) t w = (None, w)
       \<and> step3_generate_render (module_setup environ genai_Client) sk w = (None, w)
       \<and> fst (workflow (module_setup environ genai_Client) image_open bp w) = Halted Stopped
       \<and> calls (snd (workflow (module_setup environ genai_Client) image_open bp w)) = calls w
       \<and> errors (snd (workflow (module_setup environ genai_Client) image_open bp w)) = errors w"
proof -
  let ?g = "module_setup environ genai_Client"
  have c: "client ?g = None"
    using assms by (simp add: module_setup_def)
  have s1: "step1_enhance_prompt ?g bp w' = (None, w')" for w'
    using c by (simp add: step1_enhance_prompt_def)
  have s2: "step2_generate_sketch ?g t w = (None, w)"
    using c by (simp add: step2_generate_sketch_def)
  have s3: "step3_generate_render ?g sk w = (None, w)"
    using c by (simp add: step3_generate_render_def)
  have wf: "workflow ?g image_open bp w =
      (Halted Stopped, status_update ''Step 1 Failed''
         (w\<lparr>session := (init_session (session w))\<lparr>step1_text := Stored None\<rparr>\<rparr>))"
    by (simp add: workflow_def eval_nat_numeral s1)
  show ?thesis
    using c s1 s2 s3 by (simp add: wf status_update_def)
qed

theorem backend_unavailable_no_calls_witness:
  "offline_Client (Map.empty ''GOOGLE_CLOUD_PROJECT'')
     (environ_get Map.empty ''GOOGLE_CLOUD_REGION'' ''us-central1'') = Inl ''Project must be set''
   \<and> client (module_setup Map.empty offline_Client) = None
   \<and> step1_enhance_prompt (module_setup Map.empty offline_Client) ''Modern Bedroom'' empty_world
       = (None, empty_world)
   \<and> step2_generate_sketch (module_setup Map.empty offline_Client) (Some ''A room.'') empty_world
       = (None, empty_world)
   \<and> step3_generate_render (module_setup Map.empty offline_Client) (Some [1, 2]) empty_world
       = (None, empty_world)
   \<and> fst (workflow (module_setup Map.empty offline_Client) (\<lambda>b. None) ''Modern Bedroom'' empty_world)
       = Halted Stopped
   \<and> calls (snd (workflow (module_setup Map.empty offline_Client) (\<lambda>b. None) ''Modern Bedroom'' empty_world)) = []"
  using backend_unavailable_no_calls [where environ = Map.empty and genai_Client = offline_Client
      and e = "''Project must be set''" and bp = "''Modern Bedroom''" and w = empty_world
      and t = "Some ''A room.''" and sk = "Some [1, 2]" and image_open = "\<lambda>b. None"]
  by (simp add: offline_Client_def empty_world_def)

subsection \<open>C8: what a run starts from\<close>




subsection \<open>C9: the payload is not checked\<close>

text \<open>
  C9 says that stages 2 and 3 return the payload of the first part that carries any inline
  data, with no check of its MIME type or of its bytes, and that for every response whose
  first part with inline data is not an image that payload is returned as a success. The
  last part fails when the payload is an empty byte string or is absent: the stage returns
  \<^verbatim>\<open>inline_data.data\<close> as it is, \<^verbatim>\<open>b""\<close> or \<^verbatim>\<open>None\<close>, which is falsy, and the
  workflow sets the label to \<^verbatim>\<open>Step 2 Failed\<close> and stops.
\<close>

theorem empty_payload_is_failure:
  "\<not> carries_inline_image empty_audio_part
   \<and> find carries_inline_data (first_candidate_parts empty_audio_response)
       = Some empty_audio_part
   \<and> fst (step2_generate_sketch (online [Inr empty_audio_response]) (Some ''A bright room.'')
        mid_run) = Some []
   \<and> fst (workflow_step (online [Inr empty_audio_response]) shows_image ''Modern Bedroom''
        (AtStep2, mid_run)) = Halted Stopped
   \<and> labels (snd (workflow_step (online [Inr empty_audio_response]) shows_image ''Modern Bedroom''
        (AtStep2, mid_run))) = [''Step 2 Failed'']
   \<and> \<not> carries_inline_image dataless_audio_part
   \<and> find carries_inline_data (first_candidate_parts dataless_audio_response)
       = Some dataless_audio_part
   \<and> fst (step2_generate_sketch (online [Inr dataless_audio_response]) (Some ''A bright room.'')
        mid_run) = None
   \<and> fst (workflow_step (online [Inr dataless_audio_response]) shows_image ''Modern Bedroom''
        (AtStep2, mid_run)) = Halted Stopped
   \<and> fst (step3_generate_render (online [Inr empty_audio_response]) (Some png_bytes) mid_run)
       = Some []"
  by (simp add: program fixtures first_candidate_parts_def candidate_parts_def
      carries_inline_data_def carries_inline_image_def)

text \<open>
  C9, in the form that holds of the code. When the first part with inline data of the first
  candidate declares a MIME type that is not an image type and has a payload that is a byte
  string and not empty, stages 2 and 3 return that payload, which is truthy, so a success
  for the workflow, and show no message. The workflow stores it in the slot of the stage
  whatever the image viewer makes of the bytes.
\<close>

theorem non_image_payload_returned:
  assumes "client g = Some c"
    and "find carries_inline_data (first_candidate_parts r) = Some p"
    and "\<not> carries_inline_image p"
    and "payload p = Some d" and "d \<noteq> []"
  shows "(c (calls w) (step2_request g t) = Inr r \<longrightarrow>
            fst (step2_generate_sketch g t w) = Some d
          \<and> truthy (fst (step2_generate_sketch g t w))
          \<and> errors (snd (step2_generate_sketch g t w)) = errors w
          \<and> (step1_text (session w) = Stored t \<longrightarrow>
               step2_image (session (snd (workflow_step g image_open bp (AtStep2, w))))
                 = Stored (Some d)))
       \<and> (c (calls w) (step3_request g sk) = Inr r \<longrightarrow>
            fst (step3_generate_render g sk w) = Some d
          \<and> truthy (fst (step3_generate_render g sk w))
          \<and> errors (snd (step3_generate_render g sk w)) = errors w
          \<and> (step2_image (session w) = Stored sk \<longrightarrow>
               step3_image (session (snd (workflow_step g image_open bp (AtStep3, w))))
                 = Stored (Some d)))"
proof -
  have "first_candidate_parts r \<noteq> []"
    using assms(2) by auto
  then have l: "\<not> first_candidate_lacks_content r"
    by (auto simp: first_candidate_parts_def first_candidate_lacks_content_def candidate_parts_def
        split: option.splits list.splits)
  have f: "find_image r = Inr (Some d)"
    by (simp add: find_image_eq l assms(2) assms(4))
  have s2: "step2_generate_sketch g t w = (Some d, w\<lparr>calls := calls w @ [step2_request g t]\<rparr>)"
    if "c (calls w) (step2_request g t) = Inr r"
    using that by (simp add: step2_answer [OF assms(1)] f)
  have s3: "step3_generate_render g sk w = (Some d, w\<lparr>calls := calls w @ [step3_request g sk]\<rparr>)"
    if "c (calls w) (step3_request g sk) = Inr r"
    using that by (simp add: step3_answer [OF assms(1)] f)
  show ?thesis
    using s2 s3 assms(5) by (simp add: status_update_def Let_def split: option.splits)
qed

theorem non_image_payload_returned_witness:
  "\<not> carries_inline_image audio_part
   \<and> fst (step2_generate_sketch (online [Inr audio_then_image]) (Some ''A bright room.'') mid_run)
       = Some wav_bytes
   \<and> step2_image (session (snd (workflow_step (online [Inr audio_then_image]) rejects_image
        ''Modern Bedroom'' (AtStep2, mid_run)))) = Stored (Some wav_bytes)
   \<and> fst (step3_generate_render (online [Inr audio_then_image]) (Some png_bytes) mid_run)
       = Some wav_bytes
   \<and> step3_image (session (snd (workflow_step (online [Inr audio_then_image]) rejects_image
        ''Modern Bedroom'' (AtStep3, mid_run)))) = Stored (Some wav_bytes)"
proof -
  have f: "find carries_inline_data (first_candidate_parts audio_then_image) = Some audio_part"
    by (simp add: first_candidate_parts_def candidate_parts_def carries_inline_data_def
        audio_then_image_def response_of_def text_part_def audio_part_def)
  have c: "client (online [Inr audio_then_image]) = Some (scripted_client [Inr audio_then_image])"
    by (simp add: online_def)
  have i: "\<not> carries_inline_image audio_part"
    by (simp add: carries_inline_image_def audio_part_def)
  have p: "payload audio_part = Some wav_bytes"
    by (simp add: payload_def audio_part_def)
  have d: "wav_bytes \<noteq> []"
    by (simp add: wav_bytes_def)
  show ?thesis
    using i non_image_payload_returned [OF c f i p d, where w = mid_run
        and t = "Some ''A bright room.''" and image_open = rejects_image
        and bp = "''Modern Bedroom''" and sk = "Some png_bytes"]
    by (simp add: scripted_client_def mid_run_def)
qed

subsection \<open>C10: only the first candidate is scanned\<close>

text \<open>
  C10 says that only the parts of the first candidate are scanned, and that for every
  response whose inline image data is solely in a second or later candidate the stage
  returns a failure. The last part fails when the first candidate has a part with inline
  data that is not an image: with an audio part in the first candidate and the image part in
  the second, the only inline image is in the second candidate, and both stages return the
  audio bytes, a truthy result.
\<close>

theorem later_image_earlier_audio:
  "filter carries_inline_image (returned_parts audio_before_image_candidate) = [image_part]
   \<and> filter carries_inline_image (first_candidate_parts audio_before_image_candidate) = []
   \<and> fst (step2_generate_sketch (online [Inr audio_before_image_candidate])
        (Some ''A bright room.'') empty_world) = Some wav_bytes
   \<and> fst (step3_generate_render (online [Inr audio_before_image_candidate]) (Some png_bytes)
        empty_world) = Some wav_bytes
   \<and> truthy (Some wav_bytes)"
  by (simp add: program fixtures returned_parts_def first_candidate_parts_def
      candidate_parts_def carries_inline_image_def)

text \<open>
  C10, in the form that holds of the code. The scan of a response with candidates gives what
  it gives on the response with the first candidate alone. When no part of the first
  candidate carries inline data of any kind, stages 2 and 3 return \<^verbatim>\<open>None\<close>, whatever
  the other candidates hold, an inline image among them or not.
\<close>

theorem only_first_candidate_scanned:
  assumes "client g = Some c"
    and "candidates r = Some (cand # others)"
  shows "find_image r = find_image (r\<lparr>candidates := Some [cand]\<rparr>)
       \<and> ((\<forall>p\<in>set (candidate_parts cand). \<not> carries_inline_data p) \<longrightarrow>
            (c (calls w) (step2_request g t) = Inr r \<longrightarrow>
               fst (step2_generate_sketch g t w) = None)
          \<and> (c (calls w) (step3_request g sk) = Inr r \<longrightarrow>
               fst (step3_generate_render g sk w) = None))"
proof -
  have a: "find_image r = find_image (r\<lparr>candidates := Some [cand]\<rparr>)"
    using assms(2) by (simp add: find_image_def)
  have p: "first_candidate_parts r = candidate_parts cand"
    using assms(2) by (simp add: first_candidate_parts_def)
  have b: "find_image r = Inr None \<or> find_image r = Inl (attribute_error ''parts'')"
    if "\<forall>p\<in>set (candidate_parts cand). \<not> carries_inline_data p"
  proof -
    have "find carries_inline_data (first_candidate_parts r) = None"
      using that unfolding p by (rule find_None_no_inline)
    then show ?thesis
      by (simp add: find_image_eq)
  qed
  have s2: "fst (step2_generate_sketch g t w) = None"
    if "\<forall>p\<in>set (candidate_parts cand). \<not> carries_inline_data p"
      "c (calls w) (step2_request g t) = Inr r"
    using b [OF that(1)] that(2) by (auto simp: step2_answer [OF assms(1)])
  have s3: "fst (step3_generate_render g sk w) = None"
    if "\<forall>p\<in>set (candidate_parts cand). \<not> carries_inline_data p"
      "c (calls w) (step3_request g sk) = Inr r"
    using b [OF that(1)] that(2) by (auto simp: step3_answer [OF assms(1)])
  show ?thesis
    using a s2 s3 by blast
qed

theorem only_first_candidate_scanned_witness:
  "filter carries_inline_image (returned_parts image_in_second_candidate) = [image_part]
   \<and> fst (step2_generate_sketch (online [Inr image_in_second_candidate]) (Some ''A bright room.'')
        empty_world) = None
   \<and> fst (step3_generate_render (online [Inr image_in_second_candidate]) (Some png_bytes)
        empty_world) = None"
proof -
  have c: "client (online [Inr image_in_second_candidate])
      = Some (scripted_client [Inr image_in_second_candidate])"
    by (simp add: online_def)
  have k: "candidates image_in_second_candidate
      = Some (\<lparr>content = Some \<lparr>parts = Some [text_part]\<rparr>\<rparr>
              # [\<lparr>content = Some \<lparr>parts = Some [image_part]\<rparr>\<rparr>])"
    by (simp add: image_in_second_candidate_def)
  have n: "\<forall>p\<in>set (candidate_parts \<lparr>content = Some \<lparr>parts = Some [text_part]\<rparr>\<rparr>).
      \<not> carries_inline_data p"
    by (simp add: candidate_parts_def carries_inline_data_def text_part_def)
  have r: "filter carries_inline_image (returned_parts image_in_second_candidate) = [image_part]"
    by (simp add: returned_parts_def candidate_parts_def carries_inline_image_def
        image_in_second_candidate_def text_part_def image_part_def)
  show ?thesis
    using r n only_first_candidate_scanned [OF c k, where w = empty_world
        and t = "Some ''A bright room.''" and sk = "Some png_bytes"]
    by (simp add: scripted_client_def empty_world_def)
qed

end
